theory Spec2Isabelle
  imports Complex_Main
begin

section \<open>Pose evaluation engine: data model\<close>

text \<open>
  The engine is the TypeScript of \<^verbatim>\<open>utils/scoring.ts\<close> and \<^verbatim>\<open>utils/angles.ts\<close>, and the
  hold-completion handler of \<^verbatim>\<open>components/ChallengeFlow.tsx\<close>.

  Modelling conventions.
  \<^item> A JavaScript \<^verbatim>\<open>number\<close> is a \<^typ>\<open>real\<close>: arithmetic is exact, and the values
    \<^verbatim>\<open>NaN\<close> and \<^verbatim>\<open>Infinity\<close> do not occur as inputs (the specification's data model
    speaks of real numbers). Every division of the source is guarded against a zero
    divisor by the source itself, so no division of the model is by zero on a path
    the source takes. The source computes in IEEE doubles, whose results can differ
    from the exact ones in the last place; no property below is stated of a value
    where that difference decides it (see \<open>computeSymmetry\<close> and \<open>stabilityScore\<close>).
  \<^item> An object used as a string-keyed record (\<^verbatim>\<open>{[key: string]: number}\<close>) is an
    association list in the order of \<^verbatim>\<open>Object.keys\<close>; a property read that yields
    \<^verbatim>\<open>undefined\<close> is \<^const>\<open>None\<close>.
  \<^item> A mutable local of a loop is threaded through a recursive function.
\<close>

type_synonym PoseAngles = "(string \<times> real) list"
type_synonym PoseTolerances = "(string \<times> real) list"
type_synonym PoseWeights = "(string \<times> real) list"

record FrameScore =
  score :: real
  timestamp :: real
  angles :: PoseAngles

text \<open>\<^verbatim>\<open>obj[key]\<close>: the value of the key, \<^verbatim>\<open>undefined\<close> when the object lacks it.\<close>

definition getProp :: "(string \<times> 'v) list \<Rightarrow> string \<Rightarrow> 'v option" where
  "getProp obj key = map_of obj key"

text \<open>\<^verbatim>\<open>obj[key] = v\<close>: an existing key keeps its place, a new key goes last.\<close>

fun setProp :: "string \<Rightarrow> 'v \<Rightarrow> (string \<times> 'v) list \<Rightarrow> (string \<times> 'v) list" where
  "setProp key v [] = [(key, v)]"
| "setProp key v (kv # rest) =
     (if fst kv = key then (key, v) # rest else kv # setProp key v rest)"

definition Object_keys :: "(string \<times> 'v) list \<Rightarrow> string list" where
  "Object_keys obj = map fst obj"

definition Object_values :: "(string \<times> 'v) list \<Rightarrow> 'v list" where
  "Object_values obj = map snd obj"

definition Object_entries :: "(string \<times> 'v) list \<Rightarrow> (string \<times> 'v) list" where
  "Object_entries obj = obj"

text \<open>
  \<^verbatim>\<open>v || d\<close> on a number that may be \<^verbatim>\<open>undefined\<close>: the falsy values
  (\<^verbatim>\<open>undefined\<close> and \<^verbatim>\<open>0\<close>) give the default.
\<close>

definition orDefault :: "real option \<Rightarrow> real \<Rightarrow> real" where
  "orDefault v d = (case v of None \<Rightarrow> d | Some r \<Rightarrow> if r = 0 then d else r)"

text \<open>\<^verbatim>\<open>Math.round\<close>: the nearest integer, a tie going up.\<close>

definition Math_round :: "real \<Rightarrow> real" where
  "Math_round r = of_int \<lfloor>r + 1 / 2\<rfloor>"

section \<open>Similarity scorer\<close>

record ScoreResult =
  finalScore :: real
  deviations :: "(string \<times> real) list"

text \<open>
  The \<^verbatim>\<open>for (const angleName of angleNames)\<close> loop of \<^verbatim>\<open>similarityScore\<close>; the state
  is \<^verbatim>\<open>(totalWeight, weightedSum, deviations)\<close>.
\<close>

fun similarityLoop ::
  "PoseAngles \<Rightarrow> PoseAngles \<Rightarrow> PoseTolerances \<Rightarrow> PoseWeights \<Rightarrow> string list \<Rightarrow>
   real \<times> real \<times> (string \<times> real) list \<Rightarrow> real \<times> real \<times> (string \<times> real) list" where
  "similarityLoop userAngles targetAngles tolerances weights [] st = st"
| "similarityLoop userAngles targetAngles tolerances weights (angleName # rest)
     (totalWeight, weightedSum, devs) =
     (let userAngle = getProp userAngles angleName;
          targetAngle = getProp targetAngles angleName;
          tolerance = orDefault (getProp tolerances angleName) 30;
          weight = orDefault (getProp weights angleName) 1
      in case (userAngle, targetAngle) of
           (Some ua, Some ta) \<Rightarrow>
             (let diff = \<bar>ua - ta\<bar>;
                  angleScore = max 0 (1 - diff / tolerance)
              in similarityLoop userAngles targetAngles tolerances weights rest
                   (totalWeight + weight, weightedSum + angleScore * weight,
                    setProp angleName diff devs))
         | _ \<Rightarrow>
             similarityLoop userAngles targetAngles tolerances weights rest
               (totalWeight, weightedSum, devs))"

definition similarityScore ::
  "PoseAngles \<Rightarrow> PoseAngles \<Rightarrow> PoseTolerances \<Rightarrow> PoseWeights \<Rightarrow> ScoreResult" where
  "similarityScore userAngles targetAngles tolerances weights =
     (case similarityLoop userAngles targetAngles tolerances weights
             (Object_keys targetAngles) (0, 0, []) of
        (totalWeight, weightedSum, devs) \<Rightarrow>
          \<lparr> finalScore = (if totalWeight > 0 then weightedSum / totalWeight else 0),
            deviations = devs \<rparr>)"

section \<open>Session aggregator\<close>

text \<open>
  \<^verbatim>\<open>computeSessionScore(frameScores, stabilityPenalty = 0.9)\<close>: an omitted second
  argument is \<^const>\<open>None\<close> and takes the default.
\<close>

definition computeSessionScore :: "FrameScore list \<Rightarrow> real option \<Rightarrow> real" where
  "computeSessionScore frameScores stabilityPenaltyArg =
     (let stabilityPenalty = (case stabilityPenaltyArg of None \<Rightarrow> 9 / 10 | Some p \<Rightarrow> p)
      in if length frameScores = 0 then 0
         else (let scores = map score frameScores;
                   avgScore = foldl (\<lambda>a b. a + b) 0 scores / real (length scores)
               in avgScore * stabilityPenalty * 100))"

datatype Grade = Beginner | Intermediate | Advanced

definition scoreToGrade :: "real \<Rightarrow> Grade" where
  "scoreToGrade s =
     (if s \<ge> 80 then Advanced else if s \<ge> 60 then Intermediate else Beginner)"

definition computeAccuracy :: "real \<Rightarrow> real" where
  "computeAccuracy similarityScoreValue = Math_round (similarityScoreValue * 100)"

section \<open>Feedback generator\<close>

text \<open>
  A hint is one of the two template strings of the source with its two holes:
  \<open>Open l a\<close> stands for \<^verbatim>\<open>Open ${l} by ~${a} deg\<close> and \<open>Close l a\<close> for
  \<^verbatim>\<open>Close ${l} by ~${a} deg\<close>, where \<open>l\<close> is the joint label and \<open>a\<close> is
  \<^verbatim>\<open>Math.abs(diff)\<close>; \<^const>\<open>None\<close> is the \<^verbatim>\<open>NaN\<close> that arises when the target or
  the current angle is \<^verbatim>\<open>undefined\<close>. (The source writes the signs for "approximately"
  and "degrees" where \<^verbatim>\<open>~\<close> and \<^verbatim>\<open>deg\<close> stand here.)
\<close>

datatype Hint = Open string "real option" | Close string "real option"

text \<open>\<^verbatim>\<open>.sort((a, b) => b[1] - a[1])\<close>: stable, by descending deviation.\<close>

definition sortDeviations :: "(string \<times> real) list \<Rightarrow> (string \<times> real) list" where
  "sortDeviations entries = sort_key (\<lambda>e. - snd e) entries"

text \<open>
  \<^verbatim>\<open>.slice(0, endArg)\<close>: the end index is truncated towards zero; a negative one counts
  from the end of the array.
\<close>

definition Array_slice0 :: "real \<Rightarrow> 'a list \<Rightarrow> 'a list" where
  "Array_slice0 endArg xs =
     (let len = int (length xs);
          relEnd = (if endArg < 0 then \<lceil>endArg\<rceil> else \<lfloor>endArg\<rfloor>);
          final = (if relEnd < 0 then max (len + relEnd) 0 else min relEnd len)
      in take (nat final) xs)"

text \<open>\<^verbatim>\<open>.replace(/_/g, " ")\<close>\<close>

definition replaceUnderscores :: "string \<Rightarrow> string" where
  "replaceUnderscores s = map (\<lambda>c. if c = CHR ''_'' then CHR '' '' else c) s"

text \<open>\<^verbatim>\<open>.replace(/angle/g, "")\<close>: the matches are found left to right and do not overlap.\<close>

function removeAngle :: "string \<Rightarrow> string" where
  "removeAngle [] = []"
| "removeAngle (c # cs) =
     (if take 5 (c # cs) = ''angle'' then removeAngle (drop 4 cs) else c # removeAngle cs)"
  by pat_completeness auto
termination
  by (relation "measure length") auto

text \<open>\<^verbatim>\<open>.trim()\<close>, on the white space of ASCII.\<close>

definition isWhiteSpace :: "char \<Rightarrow> bool" where
  "isWhiteSpace c =
     (c = CHR 0x09 \<or> c = CHR 0x0A \<or> c = CHR 0x0B \<or> c = CHR 0x0C \<or> c = CHR 0x0D \<or> c = CHR '' '')"

definition trim :: "string \<Rightarrow> string" where
  "trim s = rev (dropWhile isWhiteSpace (rev (dropWhile isWhiteSpace s)))"

definition jointLabelOf :: "string \<Rightarrow> string" where
  "jointLabelOf angleName = trim (removeAngle (replaceUnderscores angleName))"

text \<open>
  The body of the \<^verbatim>\<open>for\<close> loop of \<^verbatim>\<open>generateFeedback\<close> for an entry that is not
  skipped: the hint it pushes.
\<close>

definition hintFor :: "PoseAngles \<Rightarrow> PoseAngles \<Rightarrow> string \<Rightarrow> Hint" where
  "hintFor targetAngles userAngles angleName =
     (let target = getProp targetAngles angleName;
          current = getProp userAngles angleName;
          diff = (case (target, current) of
                    (Some tv, Some cv) \<Rightarrow> Some (Math_round (tv - cv))
                  | _ \<Rightarrow> None);
          jointLabel = jointLabelOf angleName
      in if (case diff of Some d \<Rightarrow> d > 0 | None \<Rightarrow> False)
         then Open jointLabel (map_option abs diff)
         else Close jointLabel (map_option abs diff))"

fun feedbackLoop ::
  "PoseAngles \<Rightarrow> PoseAngles \<Rightarrow> (string \<times> real) list \<Rightarrow> Hint list \<Rightarrow> Hint list" where
  "feedbackLoop targetAngles userAngles [] hints = hints"
| "feedbackLoop targetAngles userAngles ((angleName, deviation) # rest) hints =
     (if deviation < 10 then feedbackLoop targetAngles userAngles rest hints
      else feedbackLoop targetAngles userAngles rest
             (hints @ [hintFor targetAngles userAngles angleName]))"

text \<open>
  \<^verbatim>\<open>generateFeedback(deviations, targetAngles, userAngles, maxHints = 3)\<close>: an omitted
  last argument is \<^const>\<open>None\<close> and takes the default.
\<close>

definition generateFeedback ::
  "(string \<times> real) list \<Rightarrow> PoseAngles \<Rightarrow> PoseAngles \<Rightarrow> real option \<Rightarrow> Hint list" where
  "generateFeedback devs targetAngles userAngles maxHintsArg =
     (let maxHints = (case maxHintsArg of None \<Rightarrow> 3 | Some m \<Rightarrow> m);
          sortedDeviations = Array_slice0 maxHints (sortDeviations (Object_entries devs))
      in feedbackLoop targetAngles userAngles sortedDeviations [])"

section \<open>Symmetry analyzer\<close>

definition pairs :: "(string \<times> string) list" where
  "pairs =
     [(''left_shoulder_angle'', ''right_shoulder_angle''),
      (''left_elbow_angle'', ''right_elbow_angle''),
      (''left_hip_angle'', ''right_hip_angle''),
      (''left_knee_angle'', ''right_knee_angle'')]"

text \<open>
  The loop of \<^verbatim>\<open>computeSymmetry\<close>; the state is \<^verbatim>\<open>(totalSymmetry, count)\<close>.

  The source rounds every quotient, sum and product to a double before \<^verbatim>\<open>Math.round\<close>,
  so a value that is a tie here can fall below the tie there: for a left elbow of 13.5
  and a right elbow of 90 the source computes 57.49999999999999 and returns 57, where
  the exact arithmetic of this definition gives 57.5 and 58. No theorem below states
  the value of \<open>computeSymmetry\<close> in general; the function appears below as a callee
  of \<open>completeLevel\<close>.
\<close>

fun symmetryLoop :: "PoseAngles \<Rightarrow> (string \<times> string) list \<Rightarrow> real \<times> nat \<Rightarrow> real \<times> nat" where
  "symmetryLoop userAngles [] st = st"
| "symmetryLoop userAngles ((left, right) # rest) (totalSymmetry, count) =
     (case (getProp userAngles left, getProp userAngles right) of
        (Some lv, Some rv) \<Rightarrow>
          (let diff = \<bar>lv - rv\<bar>;
               symm = max 0 (1 - diff / 180)
           in symmetryLoop userAngles rest (totalSymmetry + symm, count + 1))
      | _ \<Rightarrow> symmetryLoop userAngles rest (totalSymmetry, count))"

definition computeSymmetry :: "PoseAngles \<Rightarrow> real" where
  "computeSymmetry userAngles =
     (case symmetryLoop userAngles pairs (0, 0) of
        (totalSymmetry, count) \<Rightarrow>
          if count > 0 then Math_round ((totalSymmetry / real count) * 100) else 0)"

section \<open>Geometry primitives and stability analyzer\<close>

record Point3D =
  x :: real
  y :: real
  z :: real

definition computeAngle :: "Point3D \<Rightarrow> Point3D \<Rightarrow> Point3D \<Rightarrow> real" where
  "computeAngle jointA jointB jointC =
     (let vectorBA = \<lparr> x = x jointA - x jointB, y = y jointA - y jointB, z = z jointA - z jointB \<rparr>;
          vectorBC = \<lparr> x = x jointC - x jointB, y = y jointC - y jointB, z = z jointC - z jointB \<rparr>;
          dotProduct = x vectorBA * x vectorBC + y vectorBA * y vectorBC + z vectorBA * z vectorBC;
          magnitudeBA = sqrt ((x vectorBA)\<^sup>2 + (y vectorBA)\<^sup>2 + (z vectorBA)\<^sup>2);
          magnitudeBC = sqrt ((x vectorBC)\<^sup>2 + (y vectorBC)\<^sup>2 + (z vectorBC)\<^sup>2)
      in if magnitudeBA = 0 \<or> magnitudeBC = 0 then 0
         else (let cosine = dotProduct / (magnitudeBA * magnitudeBC);
                   clampedCosine = max (- 1) (min 1 cosine);
                   angleRadians = arccos clampedCosine
               in (angleRadians * 180) / pi))"

text \<open>
  \<^verbatim>\<open>stabilityScore\<close> in exact arithmetic. In the doubles of the source the mean of a
  constant series need not be the constant, and the result differs in the last place:
  on \<^verbatim>\<open>[5.4, 5.4, 5.4]\<close> the source returns 0.9999999999999999 where this definition
  gives 1. No theorem below states the value of \<open>stabilityScore\<close> in general; the
  function appears below as a callee of \<open>completeLevel\<close>.
\<close>

definition stabilityScore :: "real list \<Rightarrow> real" where
  "stabilityScore angleTimeSeries =
     (if length angleTimeSeries < 2 then 1
      else (let mean = foldl (\<lambda>a b. a + b) 0 angleTimeSeries / real (length angleTimeSeries);
                variance = foldl (\<lambda>sum val. sum + (val - mean)\<^sup>2) 0 angleTimeSeries
                             / real (length angleTimeSeries);
                stdDev = sqrt variance;
                maxStdDev = 15
            in max 0 (1 - stdDev / maxStdDev)))"

section \<open>Hold completion\<close>

text \<open>
  Of a pose of the library, the fields the engine reads; the presentation fields
  (name, thumbnail, steps, tips) play no part in the computation.
\<close>

record PoseData =
  targetAngles :: PoseAngles
  tolerances :: PoseTolerances
  weights :: PoseWeights

record SessionData =
  accuracy :: real
  stability :: real
  symmetry :: real
  grade :: Grade
  feedback :: "Hint list"

text \<open>
  The state \<^verbatim>\<open>completeLevel\<close> reads and writes: the two refs of the hold
  (\<^verbatim>\<open>frameScoresRef.current\<close>, \<^verbatim>\<open>angleTimeSeriesRef.current\<close>) and the component state
  it sets.
\<close>

record ChallengeState =
  isHolding :: bool
  showSummary :: bool
  frameScoresRef :: "FrameScore list"
  angleTimeSeriesRef :: "(string \<times> real list) list"
  sessionData :: "SessionData option"

text \<open>
  \<^verbatim>\<open>completeLevel\<close>, with \<^verbatim>\<open>currentPose\<close> as an argument (\<^const>\<open>None\<close> when no pose of
  the library matches the level: the handler then returns at once).
\<close>

definition completeLevel :: "PoseData option \<Rightarrow> ChallengeState \<Rightarrow> ChallengeState" where
  "completeLevel currentPose st =
     (case currentPose of
        None \<Rightarrow> st
      | Some pose \<Rightarrow>
          (let frames = frameScoresRef st;
               lastFrame = (if frames = [] then None else Some (last frames));
               acc = (case lastFrame of Some f \<Rightarrow> computeAccuracy (score f) | None \<Rightarrow> 0);
               sym = (case lastFrame of Some f \<Rightarrow> computeSymmetry (angles f) | None \<Rightarrow> 0);
               allStabilities = map stabilityScore (Object_values (angleTimeSeriesRef st));
               avgStability =
                 (if length allStabilities > 0
                  then Math_round ((foldl (\<lambda>a b. a + b) 0 allStabilities
                                      / real (length allStabilities)) * 100)
                  else 0);
               sessionScore = computeSessionScore frames (Some (avgStability / 100));
               gr = scoreToGrade sessionScore;
               fb = (case lastFrame of
                       Some f \<Rightarrow>
                         generateFeedback
                           (deviations
                              (similarityScore (angles f) (targetAngles pose)
                                 (tolerances pose) (weights pose)))
                           (targetAngles pose) (angles f) None
                     | None \<Rightarrow> [])
           in st \<lparr> isHolding := False,
                   sessionData := Some \<lparr> accuracy = acc, stability = avgStability,
                                          symmetry = sym, grade = gr, feedback = fb \<rparr>,
                   showSummary := True \<rparr>))"

section \<open>The specification's formulas\<close>


section \<open>Properties of the similarity scorer\<close>

lemma map_of_setProp: "map_of (setProp k v al) = (map_of al)(k \<mapsto> v)"
  by (induction al) (auto simp: fun_eq_iff)

lemma keys_setProp: "set (map fst (setProp k v al)) = insert k (set (map fst al))"
  by (induction al) auto

lemma distinct_setProp: "distinct (map fst al) \<Longrightarrow> distinct (map fst (setProp k v al))"
proof (induction al)
  case Nil
  show ?case by simp
next
  case (Cons kv al)
  have "set (map fst (setProp k v al)) = insert k (set (map fst al))"
    by (rule keys_setProp)
  with Cons show ?case by auto
qed

lemma getProp_values: "getProp obj n = Some r \<Longrightarrow> r \<in> set (Object_values obj)"
  unfolding getProp_def Object_values_def
  by (drule map_of_SomeD) force

lemma getProp_keys: "getProp obj n \<noteq> None \<longleftrightarrow> n \<in> set (Object_keys obj)"
  unfolding getProp_def Object_keys_def
  by (simp add: map_of_eq_None_iff)

lemma orDefault_pos: "0 < d \<Longrightarrow> (\<And>r. v = Some r \<Longrightarrow> 0 \<le> r) \<Longrightarrow> 0 < orDefault v d"
  by (cases v) (auto simp: orDefault_def)

lemma similarityLoop_devs:
  "map_of (snd (snd (similarityLoop u t tol w names (tw, ws, devs)))) n =
     (if n \<in> set names then
        (case (getProp u n, getProp t n) of
           (Some ua, Some ta) \<Rightarrow> Some \<bar>ua - ta\<bar>
         | _ \<Rightarrow> map_of devs n)
      else map_of devs n)"
proof (induction names arbitrary: tw ws devs)
  case Nil
  then show ?case by simp
next
  case (Cons a names)
  show ?case
    by (cases "getProp u a"; cases "getProp t a"; cases "a = n")
       (auto simp: Cons.IH Let_def map_of_setProp split: option.splits)
qed

lemma similarityLoop_distinct:
  "distinct (map fst devs) \<Longrightarrow>
   distinct (map fst (snd (snd (similarityLoop u t tol w names (tw, ws, devs)))))"
proof (induction names arbitrary: tw ws devs)
  case Nil
  then show ?case by simp
next
  case (Cons a names)
  show ?case
    by (cases "getProp u a"; cases "getProp t a")
       (auto simp: Let_def intro!: Cons.IH Cons.prems distinct_setProp)
qed

lemma similarityLoop_bounds:
  assumes tolOK: "\<And>n r. getProp tol n = Some r \<Longrightarrow> 0 \<le> r"
      and wOK: "\<And>n r. getProp w n = Some r \<Longrightarrow> 0 \<le> r"
  shows "0 \<le> ws \<Longrightarrow> ws \<le> tw \<Longrightarrow>
         similarityLoop u t tol w names (tw, ws, devs) = (tw', ws', devs') \<Longrightarrow>
         0 \<le> ws' \<and> ws' \<le> tw'"
proof (induction names arbitrary: tw ws devs)
  case Nil
  then show ?case by simp
next
  case (Cons a names)
  have tp: "0 < orDefault (getProp tol a) 30"
    by (rule orDefault_pos) (auto dest: tolOK)
  have wp: "0 < orDefault (getProp w a) 1"
    by (rule orDefault_pos) (auto dest: wOK)
  show ?case
  proof (cases "getProp u a")
    case None
    with Cons show ?thesis by (auto simp: Let_def)
  next
    case (Some ua)
    note ua = this
    show ?thesis
    proof (cases "getProp t a")
      case None
      with Cons ua show ?thesis by (auto simp: Let_def)
    next
      case (Some ta)
      define s where "s = max 0 (1 - \<bar>ua - ta\<bar> / orDefault (getProp tol a) 30)"
      have s0: "0 \<le> s" by (simp add: s_def)
      have s1: "s \<le> 1" using tp by (simp add: s_def)
      have a1: "0 \<le> ws + s * orDefault (getProp w a) 1"
        using Cons.prems(1) s0 wp by simp
      have "s * orDefault (getProp w a) 1 \<le> 1 * orDefault (getProp w a) 1"
        using s1 wp by (intro mult_right_mono) auto
      then have a2: "ws + s * orDefault (getProp w a) 1 \<le> tw + orDefault (getProp w a) 1"
        using Cons.prems(2) by simp
      from Cons.prems(3) ua Some
      have "similarityLoop u t tol w names
              (tw + orDefault (getProp w a) 1, ws + s * orDefault (getProp w a) 1,
               setProp a \<bar>ua - ta\<bar> devs) = (tw', ws', devs')"
        by (simp add: Let_def s_def)
      from Cons.IH[OF a1 a2 this] show ?thesis .
    qed
  qed
qed

lemma similarityLoop_perfect:
  assumes match: "\<And>n ua ta. getProp u n = Some ua \<Longrightarrow> getProp t n = Some ta \<Longrightarrow> \<bar>ua - ta\<bar> = 0"
      and wOK: "\<And>n r. getProp w n = Some r \<Longrightarrow> 0 \<le> r"
  shows "ws = tw \<Longrightarrow>
         similarityLoop u t tol w names (tw, ws, devs) = (tw', ws', devs') \<Longrightarrow>
         ws' = tw' \<and> tw \<le> tw' \<and>
         ((\<exists>n \<in> set names. getProp u n \<noteq> None \<and> getProp t n \<noteq> None) \<longrightarrow> tw < tw')"
proof (induction names arbitrary: tw ws devs)
  case Nil
  then show ?case by simp
next
  case (Cons a names)
  have wp: "0 < orDefault (getProp w a) 1"
    by (cases "getProp w a") (auto simp: orDefault_def dest: wOK)
  show ?case
  proof (cases "getProp u a")
    case None
    with Cons.prems have "similarityLoop u t tol w names (tw, ws, devs) = (tw', ws', devs')"
      by (simp add: Let_def)
    from Cons.IH[OF Cons.prems(1) this] None show ?thesis by auto
  next
    case (Some ua)
    note ua = this
    show ?thesis
    proof (cases "getProp t a")
      case None
      with Cons.prems ua have "similarityLoop u t tol w names (tw, ws, devs) = (tw', ws', devs')"
        by (simp add: Let_def)
      from Cons.IH[OF Cons.prems(1) this] None show ?thesis by auto
    next
      case (Some ta)
      have d0: "\<bar>ua - ta\<bar> = 0" using match[OF ua Some] .
      from Cons.prems(2) ua Some d0
      have run: "similarityLoop u t tol w names
              (tw + orDefault (getProp w a) 1, ws + orDefault (getProp w a) 1,
               setProp a 0 devs) = (tw', ws', devs')"
        by (simp add: Let_def)
      have "ws + orDefault (getProp w a) 1 = tw + orDefault (getProp w a) 1"
        using Cons.prems(1) by simp
      from Cons.IH[OF this run] wp show ?thesis by auto
    qed
  qed
qed

lemma similarityLoop_cong:
  assumes "\<And>k. orDefault (getProp tol k) 30 = orDefault (getProp tol' k) 30"
      and "\<And>k. orDefault (getProp w k) 1 = orDefault (getProp w' k) 1"
  shows "similarityLoop u t tol w names st = similarityLoop u t tol' w' names st"
proof (induction names arbitrary: st)
  case Nil
  show ?case by simp
next
  case (Cons a names)
  obtain tw ws devs where st: "st = (tw, ws, devs)" by (cases st) auto
  show ?case unfolding st
    by (simp add: Let_def assms Cons.IH split: option.splits)
qed

lemma orDefault_setProp_zero:
  "orDefault (getProp (setProp n 0 obj) k) d = orDefault (getProp (setProp n d obj) k) d"
  by (simp add: getProp_def map_of_setProp orDefault_def)

lemma values_nonneg:
  assumes "\<forall>r \<in> set (Object_values obj). 0 \<le> r" and "getProp obj n = Some r"
  shows "0 \<le> r"
proof -
  from assms(2) have "r \<in> set (Object_values obj)" by (rule getProp_values)
  with assms(1) show ?thesis by (rule bspec)
qed

text \<open>
  Claim C1, as amended. When no supplied tolerance and no supplied weight is negative,
  the score returned by \<open>similarityScore\<close> lies in the interval [0,1], for every user
  and target angle mapping.
\<close>

theorem similarityScore_in_unit_interval:
  assumes "\<forall>r \<in> set (Object_values tol). 0 \<le> r"
      and "\<forall>r \<in> set (Object_values w). 0 \<le> r"
  shows "0 \<le> finalScore (similarityScore u t tol w) \<and>
         finalScore (similarityScore u t tol w) \<le> 1"
proof -
  obtain tw ws devs where
    run: "similarityLoop u t tol w (Object_keys t) (0, 0, []) = (tw, ws, devs)"
    by (cases "similarityLoop u t tol w (Object_keys t) (0, 0, [])") auto
  have tolOK: "\<And>n r. getProp tol n = Some r \<Longrightarrow> 0 \<le> r"
    by (rule values_nonneg[OF assms(1)])
  have wOK: "\<And>n r. getProp w n = Some r \<Longrightarrow> 0 \<le> r"
    by (rule values_nonneg[OF assms(2)])
  have b: "0 \<le> ws \<and> ws \<le> tw"
    by (rule similarityLoop_bounds[OF tolOK wOK _ _ run]) auto
  have fs: "finalScore (similarityScore u t tol w) = (if tw > 0 then ws / tw else 0)"
    by (simp add: similarityScore_def run)
  show ?thesis
  proof (cases "tw > 0")
    case True
    with b fs show ?thesis by simp
  next
    case False
    with fs show ?thesis by simp
  qed
qed

theorem similarityScore_in_unit_interval_witness:
  "list_all (\<lambda>r. 0 \<le> r) (Object_values [(''left_elbow_angle'', 30::real)]) \<and>
   list_all (\<lambda>r. 0 \<le> r) (Object_values [(''left_knee_angle'', 2::real)]) \<and>
   0 \<le> finalScore (similarityScore
          [(''left_elbow_angle'', 100), (''left_knee_angle'', 170)]
          [(''left_elbow_angle'', 90), (''left_knee_angle'', 180)]
          [(''left_elbow_angle'', 30)] [(''left_knee_angle'', 2)]) \<and>
   finalScore (similarityScore
          [(''left_elbow_angle'', 100), (''left_knee_angle'', 170)]
          [(''left_elbow_angle'', 90), (''left_knee_angle'', 180)]
          [(''left_elbow_angle'', 30)] [(''left_knee_angle'', 2)]) \<le> 1"
  using similarityScore_in_unit_interval
          [of "[(''left_elbow_angle'', 30)]" "[(''left_knee_angle'', 2)]"
              "[(''left_elbow_angle'', 100), (''left_knee_angle'', 170)]"
              "[(''left_elbow_angle'', 90), (''left_knee_angle'', 180)]"]
  by (simp add: Object_values_def)

text \<open>
  Claim C1 as stated fails: a negative tolerance gives the score 2, and a negative
  weight gives the score -1/2.
\<close>

theorem similarityScore_in_unit_interval_counterexample:
  "finalScore (similarityScore [(''a'', 30)] [(''a'', 0)] [(''a'', - 30)] []) = 2 \<and>
   finalScore (similarityScore [(''a'', 90), (''b'', 0)] [(''a'', 90), (''b'', 90)] []
                 [(''a'', - 1), (''b'', 3)]) = - (1 / 2)"
  by (simp add: similarityScore_def Object_keys_def getProp_def orDefault_def Let_def)

text \<open>
  Claim C3, as amended. When the deviation is 0 for every angle name present in both
  the target and the user mapping, at least one angle name is present in both, and no
  supplied weight is negative, \<open>similarityScore\<close> returns the score 1 (for any
  tolerances).
\<close>

theorem similarityScore_perfect_match:
  assumes "\<forall>n ua ta. getProp u n = Some ua \<and> getProp t n = Some ta \<longrightarrow> \<bar>ua - ta\<bar> = 0"
      and "\<exists>n. getProp u n \<noteq> None \<and> getProp t n \<noteq> None"
      and "\<forall>r \<in> set (Object_values w). 0 \<le> r"
  shows "finalScore (similarityScore u t tol w) = 1"
proof -
  obtain tw ws devs where
    run: "similarityLoop u t tol w (Object_keys t) (0, 0, []) = (tw, ws, devs)"
    by (cases "similarityLoop u t tol w (Object_keys t) (0, 0, [])") auto
  have match: "\<And>n ua ta. getProp u n = Some ua \<Longrightarrow> getProp t n = Some ta \<Longrightarrow> \<bar>ua - ta\<bar> = 0"
    using assms(1) by simp
  have wOK: "\<And>n r. getProp w n = Some r \<Longrightarrow> 0 \<le> r"
    by (rule values_nonneg[OF assms(3)])
  from assms(2) obtain m where m: "getProp u m \<noteq> None" "getProp t m \<noteq> None"
    by auto
  from m(2) have "m \<in> set (Object_keys t)"
    by (simp only: getProp_keys)
  with m have common: "\<exists>n \<in> set (Object_keys t). getProp u n \<noteq> None \<and> getProp t n \<noteq> None"
    by (intro bexI[of _ m]) auto
  have "ws = tw \<and> 0 \<le> tw \<and>
        ((\<exists>n \<in> set (Object_keys t). getProp u n \<noteq> None \<and> getProp t n \<noteq> None) \<longrightarrow> 0 < tw)"
    by (rule similarityLoop_perfect[OF match wOK _ run]) auto
  with common have "ws = tw" "0 < tw" by auto
  then show ?thesis by (simp add: similarityScore_def run)
qed

theorem similarityScore_perfect_match_witness:
  "getProp [(''left_elbow_angle'', 90), (''right_elbow_angle'', 40::real)] ''left_elbow_angle'' \<noteq> None \<and>
   getProp [(''left_elbow_angle'', 90), (''left_knee_angle'', 170::real)] ''left_elbow_angle'' \<noteq> None \<and>
   list_all (\<lambda>r. 0 \<le> r) (Object_values [(''left_elbow_angle'', 0::real)]) \<and>
   finalScore (similarityScore
      [(''left_elbow_angle'', 90), (''right_elbow_angle'', 40)]
      [(''left_elbow_angle'', 90), (''left_knee_angle'', 170)]
      [(''left_elbow_angle'', - 5)] [(''left_elbow_angle'', 0)]) = 1"
proof -
  let ?u = "[(''left_elbow_angle'', 90), (''right_elbow_angle'', 40::real)]"
  let ?t = "[(''left_elbow_angle'', 90), (''left_knee_angle'', 170::real)]"
  let ?w = "[(''left_elbow_angle'', 0::real)]"
  have h1: "\<forall>n ua ta. getProp ?u n = Some ua \<and> getProp ?t n = Some ta \<longrightarrow> \<bar>ua - ta\<bar> = 0"
    by (auto simp: getProp_def split: if_splits)
  have h2: "\<exists>n. getProp ?u n \<noteq> None \<and> getProp ?t n \<noteq> None"
    by (rule exI[of _ "''left_elbow_angle''"]) (simp add: getProp_def)
  have h3: "\<forall>r \<in> set (Object_values ?w). 0 \<le> r"
    by (simp add: Object_values_def)
  show ?thesis
    using similarityScore_perfect_match[OF h1 h2 h3, of "[(''left_elbow_angle'', - 5)]"]
    by (simp add: getProp_def Object_values_def)
qed

text \<open>
  Claim C3 as stated fails: with no angle name present in both mappings the premise
  holds and the score is 0; so it is for a single matching angle of negative weight.
\<close>

theorem similarityScore_perfect_match_counterexample:
  "finalScore (similarityScore [(''left_knee_angle'', 90)] [(''left_elbow_angle'', 90)] [] []) = 0 \<and>
   finalScore (similarityScore [(''a'', 90)] [(''a'', 90)] [] [(''a'', - 1)]) = 0"
  by (simp add: similarityScore_def Object_keys_def getProp_def orDefault_def Let_def)

text \<open>
  Claim C8. The deviations mapping returned by \<open>similarityScore\<close> has an entry for an
  angle name exactly when the name is present in both the target and the user mapping;
  the entry is the absolute difference of the user and the target angle, whatever the
  tolerances and weights; and no name has two entries.
\<close>

theorem similarityScore_deviations:
  "getProp (deviations (similarityScore u t tol w)) n =
     (case (getProp t n, getProp u n) of
        (Some ta, Some ua) \<Rightarrow> Some \<bar>ua - ta\<bar>
      | _ \<Rightarrow> None) \<and>
   distinct (Object_keys (deviations (similarityScore u t tol w)))"
proof -
  obtain tw ws devs where
    run: "similarityLoop u t tol w (Object_keys t) (0, 0, []) = (tw, ws, devs)"
    by (cases "similarityLoop u t tol w (Object_keys t) (0, 0, [])") auto
  have d: "deviations (similarityScore u t tol w) = devs"
    by (simp add: similarityScore_def run)
  have "map_of (snd (snd (similarityLoop u t tol w (Object_keys t) (0, 0, [])))) n =
     (if n \<in> set (Object_keys t) then
        (case (getProp u n, getProp t n) of
           (Some ua, Some ta) \<Rightarrow> Some \<bar>ua - ta\<bar>
         | _ \<Rightarrow> map_of [] n)
      else map_of [] n)"
    by (rule similarityLoop_devs)
  then have m: "map_of devs n =
     (if n \<in> set (Object_keys t) then
        (case (getProp u n, getProp t n) of
           (Some ua, Some ta) \<Rightarrow> Some \<bar>ua - ta\<bar>
         | _ \<Rightarrow> None)
      else None)"
    by (simp add: run split: option.splits)
  have k: "n \<in> set (Object_keys t) \<longleftrightarrow> getProp t n \<noteq> None"
    by (rule getProp_keys[symmetric])
  have first: "getProp devs n =
     (case (getProp t n, getProp u n) of
        (Some ta, Some ua) \<Rightarrow> Some \<bar>ua - ta\<bar>
      | _ \<Rightarrow> None)"
    unfolding getProp_def[of devs] m k
    by (cases "getProp t n"; cases "getProp u n") auto
  have "distinct (map fst (snd (snd (similarityLoop u t tol w (Object_keys t) (0, 0, [])))))"
    by (rule similarityLoop_distinct) simp
  then have "distinct (map fst devs)"
    by (simp add: run)
  then have second: "distinct (Object_keys devs)"
    by (simp add: Object_keys_def)
  show ?thesis using first second by (simp add: d)
qed

theorem similarityScore_deviations_witness:
  "getProp (deviations (similarityScore
      [(''left_elbow_angle'', 170), (''right_elbow_angle'', 40)]
      [(''left_elbow_angle'', 90), (''left_knee_angle'', 180)]
      [(''left_elbow_angle'', 30)] [])) ''left_elbow_angle'' = Some 80 \<and>
   getProp (deviations (similarityScore
      [(''left_elbow_angle'', 170), (''right_elbow_angle'', 40)]
      [(''left_elbow_angle'', 90), (''left_knee_angle'', 180)]
      [(''left_elbow_angle'', 30)] [])) ''left_knee_angle'' = None"
  using similarityScore_deviations
          [of "[(''left_elbow_angle'', 170), (''right_elbow_angle'', 40)]"
              "[(''left_elbow_angle'', 90), (''left_knee_angle'', 180)]"
              "[(''left_elbow_angle'', 30)]" "[]" "''left_elbow_angle''"]
        similarityScore_deviations
          [of "[(''left_elbow_angle'', 170), (''right_elbow_angle'', 40)]"
              "[(''left_elbow_angle'', 90), (''left_knee_angle'', 180)]"
              "[(''left_elbow_angle'', 30)]" "[]" "''left_knee_angle''"]
  by (simp add: getProp_def)

text \<open>
  Claim C9. An explicitly supplied tolerance of 0 is treated as the default 30 and an
  explicitly supplied weight of 0 as the default 1: the result of \<open>similarityScore\<close> is
  the one obtained with 30, respectively 1, supplied in its place. So an angle of
  tolerance 0 and weight 0 is not excluded from the weighted mean and its per-angle
  score is not forced to 0: alone, it gives the score \<open>max 0 (1 - diff / 30)\<close>.
\<close>

theorem similarityScore_zero_is_default:
  "similarityScore u t (setProp n 0 tol) w = similarityScore u t (setProp n 30 tol) w \<and>
   similarityScore u t tol (setProp n 0 w) = similarityScore u t tol (setProp n 1 w) \<and>
   finalScore (similarityScore [(n, ua)] [(n, ta)] [(n, 0)] [(n, 0)])
     = max 0 (1 - \<bar>ua - ta\<bar> / 30)"
proof -
  have a: "similarityLoop u t (setProp n 0 tol) w names st
             = similarityLoop u t (setProp n 30 tol) w names st" for names st
    by (rule similarityLoop_cong) (simp_all add: orDefault_setProp_zero)
  have b: "similarityLoop u t tol (setProp n 0 w) names st
             = similarityLoop u t tol (setProp n 1 w) names st" for names st
    by (rule similarityLoop_cong) (simp_all add: orDefault_setProp_zero)
  have c: "finalScore (similarityScore [(n, ua)] [(n, ta)] [(n, 0)] [(n, 0)])
             = max 0 (1 - \<bar>ua - ta\<bar> / 30)"
    by (simp add: similarityScore_def Object_keys_def getProp_def orDefault_def Let_def)
  show ?thesis using c by (simp add: similarityScore_def a b)
qed

theorem similarityScore_zero_is_default_witness:
  "finalScore (similarityScore [(''left_elbow_angle'', 105)] [(''left_elbow_angle'', 90)]
      [(''left_elbow_angle'', 0)] [(''left_elbow_angle'', 0)]) = 1 / 2"
  using similarityScore_zero_is_default [of "[]" "[]" "''left_elbow_angle''" "[]" "[]" 105 90]
  by simp

section \<open>Properties of the session aggregator and the geometry\<close>




text \<open>
  Claim C2. For every three points, \<open>computeAngle\<close> returns a value in [0, 180], and
  when the first or the third point coincides with the vertex (a zero-length vector)
  it returns 0.
\<close>

theorem computeAngle_range:
  "0 \<le> computeAngle A B C \<and> computeAngle A B C \<le> 180 \<and>
   ((x A = x B \<and> y A = y B \<and> z A = z B) \<or> (x C = x B \<and> y C = y B \<and> z C = z B)
      \<longrightarrow> computeAngle A B C = 0)"
proof -
  have r: "0 \<le> (arccos (max (- 1) (min 1 c)) * 180) / pi \<and>
           (arccos (max (- 1) (min 1 c)) * 180) / pi \<le> 180" for c :: real
  proof -
    have lo: "- 1 \<le> max (- 1) (min 1 c)" and hi: "max (- 1) (min 1 c) \<le> 1" by auto
    have a0: "0 \<le> arccos (max (- 1) (min 1 c))" by (rule arccos_lbound[OF lo hi])
    have a1: "arccos (max (- 1) (min 1 c)) \<le> pi" by (rule arccos_ubound[OF lo hi])
    have "arccos (max (- 1) (min 1 c)) * 180 \<le> pi * 180" using a1 by simp
    then have "(arccos (max (- 1) (min 1 c)) * 180) / pi \<le> 180"
      using pi_gt_zero by (simp add: field_simps)
    moreover have "0 \<le> (arccos (max (- 1) (min 1 c)) * 180) / pi"
      using a0 pi_gt_zero by simp
    ultimately show ?thesis by simp
  qed
  have range: "0 \<le> computeAngle A B C \<and> computeAngle A B C \<le> 180"
    unfolding computeAngle_def Let_def using r by (simp del: max.bounded_iff min.bounded_iff)
  have degenerate: "computeAngle A B C = 0"
    if "(x A = x B \<and> y A = y B \<and> z A = z B) \<or> (x C = x B \<and> y C = y B \<and> z C = z B)"
    using that unfolding computeAngle_def Let_def by auto
  show ?thesis using range degenerate by blast
qed

theorem computeAngle_range_witness:
  "computeAngle \<lparr>x = 1 / 2, y = 1 / 2, z = 0\<rparr> \<lparr>x = 1 / 2, y = 1 / 2, z = 0\<rparr> \<lparr>x = 1 / 2, y = 1 / 2, z = 0\<rparr> = 0 \<and>
   computeAngle \<lparr>x = 1 / 2, y = 1 / 2, z = 0\<rparr> \<lparr>x = 1 / 2, y = 1 / 2, z = 0\<rparr> \<lparr>x = 1, y = 0, z = 3\<rparr> = 0 \<and>
   computeAngle \<lparr>x = 1, y = 0, z = 0\<rparr> \<lparr>x = 0, y = 0, z = 0\<rparr> \<lparr>x = 0, y = 1, z = 0\<rparr> = 90"
  using computeAngle_range[of "\<lparr>x = 1 / 2, y = 1 / 2, z = 0\<rparr>" "\<lparr>x = 1 / 2, y = 1 / 2, z = 0\<rparr>" "\<lparr>x = 1 / 2, y = 1 / 2, z = 0\<rparr>"]
        computeAngle_range[of "\<lparr>x = 1 / 2, y = 1 / 2, z = 0\<rparr>" "\<lparr>x = 1 / 2, y = 1 / 2, z = 0\<rparr>" "\<lparr>x = 1, y = 0, z = 3\<rparr>"]
  by (simp add: computeAngle_def)

section \<open>Properties of the feedback generator\<close>

lemma feedbackLoop_filter:
  "feedbackLoop t u es hints =
     hints @ map (\<lambda>e. hintFor t u (fst e)) (filter (\<lambda>e. \<not> snd e < 10) es)"
proof (induction es arbitrary: hints)
  case Nil
  show ?case by simp
next
  case (Cons e es)
  obtain n d where e: "e = (n, d)" by (cases e) auto
  show ?case unfolding e by (simp add: Cons.IH)
qed

lemma Array_slice0_nonneg: "0 \<le> m \<Longrightarrow> Array_slice0 m xs = take (nat \<lfloor>m\<rfloor>) xs"
proof -
  assume m: "0 \<le> m"
  then have f: "0 \<le> \<lfloor>m\<rfloor>" by simp
  have "take (nat (min \<lfloor>m\<rfloor> (int (length xs)))) xs = take (nat \<lfloor>m\<rfloor>) xs"
  proof (cases "\<lfloor>m\<rfloor> \<le> int (length xs)")
    case True
    then show ?thesis by (simp add: min_def)
  next
    case False
    then have "length xs \<le> nat \<lfloor>m\<rfloor>" by linarith
    with False show ?thesis by (simp add: min_def)
  qed
  with m f show ?thesis by (simp add: Array_slice0_def Let_def)
qed

lemma generateFeedback_eq:
  "generateFeedback d t u (Some m) =
     map (\<lambda>e. hintFor t u (fst e))
       (filter (\<lambda>e. \<not> snd e < 10) (Array_slice0 m (sortDeviations (Object_entries d))))"
  by (simp add: generateFeedback_def Let_def feedbackLoop_filter)

lemma generateFeedback_length:
  assumes "0 \<le> m"
  shows "real (length (generateFeedback d t u (Some m))) \<le> m"
proof -
  have "length (generateFeedback d t u (Some m))
          \<le> length (Array_slice0 m (sortDeviations (Object_entries d)))"
    unfolding generateFeedback_eq by simp
  also have "\<dots> \<le> nat \<lfloor>m\<rfloor>"
    by (simp add: Array_slice0_nonneg[OF assms])
  finally have "real (length (generateFeedback d t u (Some m))) \<le> real (nat \<lfloor>m\<rfloor>)"
    by simp
  also have "\<dots> \<le> m" using assms by simp
  finally show ?thesis .
qed

lemma generateFeedback_default: "generateFeedback d t u None = generateFeedback d t u (Some 3)"
  by (simp add: generateFeedback_def)

text \<open>
  Claim C7, as amended. For every deviations mapping, target and user angle mapping, and
  every \<open>maxHints\<close> that is not negative, or omitted (which means 3), \<open>generateFeedback\<close>
  returns at most \<open>maxHints\<close> hints: one hint for each of the first \<open>maxHints\<close> entries,
  in the order of descending deviation, whose deviation is not below 10, and no other.
  An entry below the threshold is dropped and nothing takes its place, so the result
  may be shorter than \<open>maxHints\<close>, or empty. All of this is stated both for a supplied
  \<open>maxHints\<close> and for the omitted one.
\<close>

theorem generateFeedback_bounded:
  assumes "0 \<le> m"
  shows "generateFeedback d t u (Some m) =
           map (\<lambda>e. hintFor t u (fst e))
             (filter (\<lambda>e. 10 \<le> snd e) (take (nat \<lfloor>m\<rfloor>) (sortDeviations d))) \<and>
         real (length (generateFeedback d t u (Some m))) \<le> m \<and>
         (\<forall>e \<in> set (filter (\<lambda>e. 10 \<le> snd e) (take (nat \<lfloor>m\<rfloor>) (sortDeviations d))).
            e \<in> set d \<and> 10 \<le> snd e) \<and>
         generateFeedback d t u None =
           map (\<lambda>e. hintFor t u (fst e))
             (filter (\<lambda>e. 10 \<le> snd e) (take 3 (sortDeviations d))) \<and>
         generateFeedback d t u None = generateFeedback d t u (Some 3) \<and>
         length (generateFeedback d t u None) \<le> 3 \<and>
         (\<forall>e \<in> set (filter (\<lambda>e. 10 \<le> snd e) (take 3 (sortDeviations d))).
            e \<in> set d \<and> 10 \<le> snd e) \<and>
         generateFeedback [(''left_elbow_angle'', 80), (''left_knee_angle'', 4)] t u (Some 3)
           = [hintFor t u ''left_elbow_angle''] \<and>
         generateFeedback [(''left_elbow_angle'', 8), (''left_knee_angle'', 4)] t u (Some 3) = [] \<and>
         generateFeedback [(''left_elbow_angle'', 80), (''left_knee_angle'', 4)] t u None
           = [hintFor t u ''left_elbow_angle''] \<and>
         generateFeedback [(''left_elbow_angle'', 8), (''left_knee_angle'', 4)] t u None = []"
proof -
  have nl: "(\<lambda>e. \<not> snd e < 10) = (\<lambda>e :: string \<times> real. 10 \<le> snd e)"
    by (auto simp: fun_eq_iff)
  have eqm: "generateFeedback d t u (Some k) =
           map (\<lambda>e. hintFor t u (fst e))
             (filter (\<lambda>e. 10 \<le> snd e) (take (nat \<lfloor>k\<rfloor>) (sortDeviations d)))"
    if "0 \<le> k" for k
    by (simp add: generateFeedback_eq Array_slice0_nonneg[OF that] Object_entries_def nl)
  have eq: "generateFeedback d t u (Some m) =
           map (\<lambda>e. hintFor t u (fst e))
             (filter (\<lambda>e. 10 \<le> snd e) (take (nat \<lfloor>m\<rfloor>) (sortDeviations d)))"
    by (rule eqm[OF assms])
  have len: "real (length (generateFeedback d t u (Some m))) \<le> m"
    by (rule generateFeedback_length[OF assms])
  have srcm: "\<forall>e \<in> set (filter (\<lambda>e. 10 \<le> snd e) (take n (sortDeviations d))).
            e \<in> set d \<and> 10 \<le> snd e" for n
  proof -
    have "set (take n (sortDeviations d)) \<subseteq> set (sortDeviations d)"
      by (rule set_take_subset)
    then have "set (take n (sortDeviations d)) \<subseteq> set d"
      by (simp add: sortDeviations_def)
    then show ?thesis by auto
  qed
  have same: "generateFeedback d t u None = generateFeedback d t u (Some 3)"
    by (rule generateFeedback_default)
  have "generateFeedback d t u (Some 3) =
           map (\<lambda>e. hintFor t u (fst e))
             (filter (\<lambda>e. 10 \<le> snd e) (take (nat \<lfloor>3 :: real\<rfloor>) (sortDeviations d)))"
    by (rule eqm) simp
  then have eqd: "generateFeedback d t u None =
           map (\<lambda>e. hintFor t u (fst e))
             (filter (\<lambda>e. 10 \<le> snd e) (take 3 (sortDeviations d)))"
    by (simp add: same)
  have "real (length (generateFeedback d t u (Some 3))) \<le> 3"
    by (rule generateFeedback_length) simp
  then have dflt: "length (generateFeedback d t u None) \<le> 3"
    by (simp add: same)
  have ex1: "generateFeedback [(''left_elbow_angle'', 80), (''left_knee_angle'', 4)] t u (Some 3)
           = [hintFor t u ''left_elbow_angle'']"
    by (simp add: generateFeedback_def Array_slice0_def sortDeviations_def Object_entries_def)
  have ex2: "generateFeedback [(''left_elbow_angle'', 8), (''left_knee_angle'', 4)] t u (Some 3) = []"
    by (simp add: generateFeedback_def Array_slice0_def sortDeviations_def Object_entries_def)
  have ex3: "generateFeedback [(''left_elbow_angle'', 80), (''left_knee_angle'', 4)] t u None
           = [hintFor t u ''left_elbow_angle'']"
    by (simp add: generateFeedback_def Array_slice0_def sortDeviations_def Object_entries_def)
  have ex4: "generateFeedback [(''left_elbow_angle'', 8), (''left_knee_angle'', 4)] t u None = []"
    by (simp add: generateFeedback_def Array_slice0_def sortDeviations_def Object_entries_def)
  show ?thesis
    using eq len srcm[of "nat \<lfloor>m\<rfloor>"] eqd same dflt srcm[of 3] ex1 ex2 ex3 ex4
    by (intro conjI)
qed

theorem generateFeedback_bounded_witness:
  "(0::real) \<le> 2 \<and>
   generateFeedback
     [(''left_knee_angle'', 12), (''left_elbow_angle'', 80), (''left_hip_angle'', 30)]
     [(''left_elbow_angle'', 90), (''left_knee_angle'', 100), (''left_hip_angle'', 60)]
     [(''left_elbow_angle'', 170), (''left_knee_angle'', 88), (''left_hip_angle'', 90)]
     (Some 2)
   = [Close ''left elbow'' (Some 80), Close ''left hip'' (Some 30)] \<and>
   real (length (generateFeedback
     [(''left_knee_angle'', 12), (''left_elbow_angle'', 80), (''left_hip_angle'', 30)]
     [(''left_elbow_angle'', 90), (''left_knee_angle'', 100), (''left_hip_angle'', 60)]
     [(''left_elbow_angle'', 170), (''left_knee_angle'', 88), (''left_hip_angle'', 90)]
     (Some 2))) \<le> 2 \<and>
   generateFeedback
     [(''left_knee_angle'', 4), (''left_elbow_angle'', 80), (''left_hip_angle'', 30)]
     [(''left_elbow_angle'', 90), (''left_knee_angle'', 100), (''left_hip_angle'', 60)]
     [(''left_elbow_angle'', 170), (''left_knee_angle'', 96), (''left_hip_angle'', 90)]
     None
   = [Close ''left elbow'' (Some 80), Close ''left hip'' (Some 30)]"
proof -
  let ?t = "[(''left_elbow_angle'', 90), (''left_knee_angle'', 100), (''left_hip_angle'', 60 :: real)]"
  let ?u = "[(''left_elbow_angle'', 170), (''left_knee_angle'', 88), (''left_hip_angle'', 90 :: real)]"
  let ?u' = "[(''left_elbow_angle'', 170), (''left_knee_angle'', 96), (''left_hip_angle'', 90 :: real)]"
  let ?d = "[(''left_knee_angle'', 12), (''left_elbow_angle'', 80), (''left_hip_angle'', 30 :: real)]"
  let ?d' = "[(''left_knee_angle'', 4), (''left_elbow_angle'', 80), (''left_hip_angle'', 30 :: real)]"
  have h: "(0::real) \<le> 2" by simp
  have v: "generateFeedback ?d ?t ?u (Some 2)
             = [Close ''left elbow'' (Some 80), Close ''left hip'' (Some 30)]"
    by (simp add: generateFeedback_def Array_slice0_def sortDeviations_def Object_entries_def
          hintFor_def getProp_def Math_round_def jointLabelOf_def replaceUnderscores_def
          trim_def isWhiteSpace_def)
  have l: "real (length (generateFeedback ?d ?t ?u (Some 2))) \<le> 2"
    using generateFeedback_bounded[OF h, of ?d ?t ?u] by (elim conjE)
  have "generateFeedback ?d' ?t ?u' None =
           map (\<lambda>e. hintFor ?t ?u' (fst e))
             (filter (\<lambda>e. 10 \<le> snd e) (take 3 (sortDeviations ?d')))"
    using generateFeedback_bounded[OF h, of ?d' ?t ?u'] by (elim conjE)
  then have n: "generateFeedback ?d' ?t ?u' None
             = [Close ''left elbow'' (Some 80), Close ''left hip'' (Some 30)]"
    by (simp add: sortDeviations_def
          hintFor_def getProp_def Math_round_def jointLabelOf_def replaceUnderscores_def
          trim_def isWhiteSpace_def)
  from h v l n show ?thesis by (intro conjI)
qed

text \<open>
  Claim C7 as stated fails for a negative \<open>maxHints\<close>: \<^verbatim>\<open>slice(0, -1)\<close> keeps all but the
  last entry, so one hint is returned where at most -1 are claimed.
\<close>

theorem generateFeedback_bounded_counterexample:
  "generateFeedback
     [(''left_elbow_angle'', 20), (''left_knee_angle'', 15)]
     [(''left_elbow_angle'', 90), (''left_knee_angle'', 90)]
     [(''left_elbow_angle'', 110), (''left_knee_angle'', 105)]
     (Some (- 1))
   = [Close ''left elbow'' (Some 20)] \<and>
   \<not> real (length (generateFeedback
     [(''left_elbow_angle'', 20), (''left_knee_angle'', 15)]
     [(''left_elbow_angle'', 90), (''left_knee_angle'', 90)]
     [(''left_elbow_angle'', 110), (''left_knee_angle'', 105)]
     (Some (- 1)))) \<le> - 1"
  by (simp add: generateFeedback_def Array_slice0_def sortDeviations_def Object_entries_def
        hintFor_def getProp_def Math_round_def jointLabelOf_def replaceUnderscores_def
        trim_def isWhiteSpace_def ceiling_minus)

section \<open>Properties of hold completion\<close>

text \<open>
  Claim C10. At hold completion the accuracy, the symmetry and the feedback of the
  session result are computed from the last recorded frame alone (its score and its
  angles, and the pose), whatever the earlier frames and the angle history; with no
  recorded frame the accuracy and the symmetry are 0 and the feedback is empty.
\<close>

theorem completeLevel_last_frame:
  "map_option accuracy (sessionData (completeLevel (Some p) (st\<lparr>frameScoresRef := []\<rparr>))) = Some 0 \<and>
   map_option symmetry (sessionData (completeLevel (Some p) (st\<lparr>frameScoresRef := []\<rparr>))) = Some 0 \<and>
   map_option feedback (sessionData (completeLevel (Some p) (st\<lparr>frameScoresRef := []\<rparr>))) = Some [] \<and>
   map_option accuracy (sessionData (completeLevel (Some p) (st\<lparr>frameScoresRef := pre @ [f]\<rparr>)))
     = Some (computeAccuracy (score f)) \<and>
   map_option symmetry (sessionData (completeLevel (Some p) (st\<lparr>frameScoresRef := pre @ [f]\<rparr>)))
     = Some (computeSymmetry (angles f)) \<and>
   map_option feedback (sessionData (completeLevel (Some p) (st\<lparr>frameScoresRef := pre @ [f]\<rparr>)))
     = Some (generateFeedback
               (deviations (similarityScore (angles f) (targetAngles p) (tolerances p) (weights p)))
               (targetAngles p) (angles f) None)"
  by (simp add: completeLevel_def Let_def)

theorem completeLevel_last_frame_witness:
  "map_option accuracy (sessionData (completeLevel
      (Some \<lparr>targetAngles = [(''left_elbow_angle'', 90)], tolerances = [(''left_elbow_angle'', 30)],
             weights = []\<rparr>)
      \<lparr>isHolding = True, showSummary = False,
       frameScoresRef =
         [\<lparr>score = 1, timestamp = 0, angles = [(''left_elbow_angle'', 90), (''right_elbow_angle'', 90)]\<rparr>,
          \<lparr>score = 1 / 2, timestamp = 33, angles = [(''left_elbow_angle'', 105), (''right_elbow_angle'', 15)]\<rparr>],
       angleTimeSeriesRef = [(''left_elbow_angle'', [90, 105]), (''right_elbow_angle'', [90, 15])],
       sessionData = None\<rparr>)) = Some 50 \<and>
   map_option symmetry (sessionData (completeLevel
      (Some \<lparr>targetAngles = [(''left_elbow_angle'', 90)], tolerances = [(''left_elbow_angle'', 30)],
             weights = []\<rparr>)
      \<lparr>isHolding = True, showSummary = False,
       frameScoresRef =
         [\<lparr>score = 1, timestamp = 0, angles = [(''left_elbow_angle'', 90), (''right_elbow_angle'', 90)]\<rparr>,
          \<lparr>score = 1 / 2, timestamp = 33, angles = [(''left_elbow_angle'', 105), (''right_elbow_angle'', 15)]\<rparr>],
       angleTimeSeriesRef = [(''left_elbow_angle'', [90, 105]), (''right_elbow_angle'', [90, 15])],
       sessionData = None\<rparr>)) = Some 50 \<and>
   map_option feedback (sessionData (completeLevel
      (Some \<lparr>targetAngles = [(''left_elbow_angle'', 90)], tolerances = [(''left_elbow_angle'', 30)],
             weights = []\<rparr>)
      \<lparr>isHolding = True, showSummary = False,
       frameScoresRef =
         [\<lparr>score = 1, timestamp = 0, angles = [(''left_elbow_angle'', 90), (''right_elbow_angle'', 90)]\<rparr>,
          \<lparr>score = 1 / 2, timestamp = 33, angles = [(''left_elbow_angle'', 105), (''right_elbow_angle'', 15)]\<rparr>],
       angleTimeSeriesRef = [(''left_elbow_angle'', [90, 105]), (''right_elbow_angle'', [90, 15])],
       sessionData = None\<rparr>)) = Some [Close ''left elbow'' (Some 15)]"
proof -
  let ?p = "\<lparr>targetAngles = [(''left_elbow_angle'', 90)], tolerances = [(''left_elbow_angle'', 30)],
             weights = []\<rparr>"
  let ?first = "\<lparr>score = 1, timestamp = 0, angles = [(''left_elbow_angle'', 90), (''right_elbow_angle'', 90)]\<rparr>"
  let ?f = "\<lparr>score = 1 / 2, timestamp = 33, angles = [(''left_elbow_angle'', 105), (''right_elbow_angle'', 15)]\<rparr>"
  let ?st = "\<lparr>isHolding = True, showSummary = False, frameScoresRef = [],
       angleTimeSeriesRef = [(''left_elbow_angle'', [90, 105]), (''right_elbow_angle'', [90, 15])],
       sessionData = None\<rparr>"
  have a: "computeAccuracy (1 / 2) = 50"
    by (simp add: computeAccuracy_def Math_round_def)
  have s: "computeSymmetry [(''left_elbow_angle'', 105), (''right_elbow_angle'', 15)] = 50"
    by (simp add: computeSymmetry_def pairs_def getProp_def Math_round_def)
  have d: "deviations (similarityScore [(''left_elbow_angle'', 105), (''right_elbow_angle'', 15)]
             [(''left_elbow_angle'', 90)] [(''left_elbow_angle'', 30)] []) = [(''left_elbow_angle'', 15)]"
    by (simp add: similarityScore_def Object_keys_def getProp_def orDefault_def Let_def)
  have g: "generateFeedback [(''left_elbow_angle'', 15)] [(''left_elbow_angle'', 90)]
             [(''left_elbow_angle'', 105), (''right_elbow_angle'', 15)] None
           = [Close ''left elbow'' (Some 15)]"
    by (simp add: generateFeedback_def Array_slice0_def sortDeviations_def Object_entries_def
        hintFor_def getProp_def Math_round_def jointLabelOf_def replaceUnderscores_def
        trim_def isWhiteSpace_def)
  show ?thesis
    using completeLevel_last_frame[of ?p ?st "[?first]" ?f]
    by (simp add: a s d g)
qed

end
